theory Spec2Isabelle
  imports Complex_Main "HOL-Library.Log_Nat"
begin

section \<open>Numbers and geometry helpers\<close>

text \<open>
  The editor page (\<^verbatim>\<open>src/app/page.js\<close>) computes with JavaScript numbers, which are
  binary64 doubles. A number is modelled as the real it denotes; \<^verbatim>\<open>NaN\<close> and the
  infinities are outside the model. \<^verbatim>\<open>Math.round\<close> rounds halves upwards,
  \<^verbatim>\<open>Math.floor\<close> and \<^verbatim>\<open>Math.ceil\<close> are the usual floor and ceiling. The indent model
  below adds, subtracts and compares pixel values and is modelled with exact
  arithmetic; the pagination estimator multiplies and divides by the device pixel
  ratio, and there every product and quotient is rounded to the nearest double as the
  machine does (\<open>fl64\<close>).
\<close>

definition Math_round :: "real \<Rightarrow> real" where
  "Math_round v = of_int \<lfloor>v + 1 / 2\<rfloor>"

text \<open>\<^verbatim>\<open>function clamp(value, min, max) { return Math.min(max, Math.max(min, value)); }\<close>\<close>

definition clamp :: "'a::linorder \<Rightarrow> 'a \<Rightarrow> 'a \<Rightarrow> 'a" where
  "clamp v lo hi = min hi (max lo v)"

subsection \<open>Rounding to a double\<close>

text \<open>
  A double has a significand of 53 bits. \<open>binade x\<close> is the exponent \<open>e\<close> with
  \<open>2 ^ e \<le> x < 2 ^ (e + 1)\<close> of a positive \<open>x\<close>; the doubles of that binade are the
  multiples of \<open>2 ^ (e - 52)\<close>, and \<open>fl64 x\<close> is the multiple nearest to \<open>x\<close>, the one
  with the even significand on a tie. Overflow and subnormal numbers are outside the
  model: the exponent is not bounded.
\<close>

definition round_half_even :: "real \<Rightarrow> int" where
  "round_half_even y =
    (let f = \<lfloor>y\<rfloor>; d = y - of_int f
     in if d < 1 / 2 then f
        else if 1 / 2 < d then f + 1
        else if even f then f else f + 1)"

definition binade :: "real \<Rightarrow> int" where
  "binade x = (if 1 \<le> x then bitlen \<lfloor>x\<rfloor> - 1 else - bitlen (\<lceil>1 / x\<rceil> - 1))"

definition pow2 :: "int \<Rightarrow> real" where
  "pow2 e = (if 0 \<le> e then 2 ^ nat e else 1 / 2 ^ nat (- e))"

definition fl64 :: "real \<Rightarrow> real" where
  "fl64 x =
    (if x = 0 then 0
     else (let u = pow2 (binade \<bar>x\<bar> - 52)
           in sgn x * of_int (round_half_even (\<bar>x\<bar> / u)) * u))"

section \<open>The indent model of the ruler\<close>

record IndentState =
  leftIndent :: real
  rightIndent :: real
  firstLineIndent :: real

text \<open>The marker a drag moves: the strings \<^verbatim>\<open>"left"\<close>, \<^verbatim>\<open>"firstLine"\<close>, \<^verbatim>\<open>"right"\<close>.\<close>

datatype marker = MLeft | MFirstLine | MRight

definition minGap :: real where
  "minGap = 12"

text \<open>
  The object \<^verbatim>\<open>next\<close> that \<^verbatim>\<open>setFromDrag(type, absoluteX)\<close> builds from the current
  indents and the track width. \<^verbatim>\<open>trackWidth || 0\<close> replaces a falsy width by 0.
\<close>

definition setFromDrag_next :: "marker \<Rightarrow> real \<Rightarrow> real \<Rightarrow> IndentState \<Rightarrow> IndentState" where
  "setFromDrag_next type absoluteX trackWidth s =
    (let width = (if trackWidth = 0 then 0 else trackWidth);
         rightEdgeX = width - rightIndent s;
         currentFirstLineX = leftIndent s + firstLineIndent s
     in case type of
          MLeft \<Rightarrow>
            (let maxLeftX = max 0 (rightEdgeX - minGap);
                 newLeftX = clamp absoluteX 0 maxLeftX;
                 minFirstLineX = 0;
                 maxFirstLineX = max minFirstLineX (width - rightIndent s);
                 newFirstLineX = clamp currentFirstLineX minFirstLineX maxFirstLineX
             in s\<lparr>leftIndent := Math_round newLeftX,
                  firstLineIndent := Math_round (newFirstLineX - newLeftX)\<rparr>)
        | MFirstLine \<Rightarrow>
            (let minFirstLineX = 0;
                 maxFirstLineX = max minFirstLineX (width - rightIndent s);
                 newFirstLineX = clamp absoluteX minFirstLineX maxFirstLineX
             in s\<lparr>firstLineIndent := Math_round (newFirstLineX - leftIndent s)\<rparr>)
        | MRight \<Rightarrow>
            (let minRightX = min width (leftIndent s + minGap);
                 newRightX = clamp absoluteX minRightX width;
                 next_rightIndent = Math_round (width - newRightX);
                 nextRightEdgeX = width - next_rightIndent;
                 minFirstLineX = 0;
                 maxFirstLineX = max minFirstLineX nextRightEdgeX;
                 newFirstLineX = clamp currentFirstLineX minFirstLineX maxFirstLineX
             in s\<lparr>rightIndent := next_rightIndent,
                  firstLineIndent := Math_round (newFirstLineX - leftIndent s)\<rparr>))"

section \<open>The ruler's interaction controller\<close>

text \<open>
  The state of one \<^verbatim>\<open>Ruler\<close> component: the mounted track element (its bounding
  rectangle; \<open>None\<close> while \<^verbatim>\<open>trackRef.current\<close> is null), the drag session held in
  \<^verbatim>\<open>dragStateRef\<close>, the flag \<^verbatim>\<open>isDraggingRef\<close>, and the React state cells
  \<^verbatim>\<open>trackWidth\<close>, the three indents and \<^verbatim>\<open>activeDragType\<close>. The editing engine is an
  outside collaborator: \<open>editor\<close> is \<open>None\<close> while there is no editor, and otherwise the
  list of indent updates pushed to it by \<^verbatim>\<open>applyToEditor\<close>, newest first. Each handler
  runs on the state left by the previous event.
\<close>

record DOMRect =
  rect_left :: real
  rect_width :: real

record DragSession =
  ds_type :: "marker option"
  ds_pointerId :: "int option"

record Ruler =
  trackRef :: "DOMRect option"
  dragStateRef :: DragSession
  isDraggingRef :: bool
  trackWidth :: real
  indents :: IndentState
  activeDragType :: "marker option"
  editor :: "IndentState list option"

record PointerEvent =
  pointerId :: int
  clientX :: real

definition applyToEditor :: "IndentState \<Rightarrow> Ruler \<Rightarrow> Ruler" where
  "applyToEditor next r =
    (case editor r of
       None \<Rightarrow> r
     | Some pushed \<Rightarrow> r\<lparr>editor := Some (next # pushed)\<rparr>)"

definition getRelativeX :: "PointerEvent \<Rightarrow> Ruler \<Rightarrow> real" where
  "getRelativeX event r =
    (case trackRef r of
       None \<Rightarrow> 0
     | Some rect \<Rightarrow> clientX event - rect_left rect)"

definition setFromDrag :: "marker \<Rightarrow> real \<Rightarrow> Ruler \<Rightarrow> Ruler" where
  "setFromDrag type absoluteX r =
    (let next = setFromDrag_next type absoluteX (trackWidth r) (indents r)
     in applyToEditor next (r\<lparr>indents := next\<rparr>))"

text \<open>
  \<^verbatim>\<open>setPointerCapture\<close> acts on the browser only and leaves the component's state alone.
\<close>

definition handleMarkerPointerDown :: "marker \<Rightarrow> PointerEvent \<Rightarrow> Ruler \<Rightarrow> Ruler" where
  "handleMarkerPointerDown type event r =
    (case trackRef r of
       None \<Rightarrow> r
     | Some rect \<Rightarrow>
         setFromDrag type (getRelativeX event r)
           (r\<lparr>isDraggingRef := True,
              dragStateRef := \<lparr>ds_type = Some type, ds_pointerId = Some (pointerId event)\<rparr>,
              activeDragType := Some type\<rparr>))"

definition handleMarkerPointerMove :: "PointerEvent \<Rightarrow> Ruler \<Rightarrow> Ruler" where
  "handleMarkerPointerMove event r =
    (case ds_type (dragStateRef r) of
       None \<Rightarrow> r
     | Some type \<Rightarrow>
         if ds_pointerId (dragStateRef r) \<noteq> Some (pointerId event) then r
         else setFromDrag type (getRelativeX event r) r)"

definition handleMarkerPointerUp :: "PointerEvent \<Rightarrow> Ruler \<Rightarrow> Ruler" where
  "handleMarkerPointerUp event r =
    (if ds_pointerId (dragStateRef r) \<noteq> Some (pointerId event) then r
     else r\<lparr>dragStateRef := \<lparr>ds_type = None, ds_pointerId = None\<rparr>,
            isDraggingRef := False,
            activeDragType := None\<rparr>)"

text \<open>
  The hooks' initial values, and the mount effect that measures the track:
  \<^verbatim>\<open>update()\<close> stores the width of the element's bounding rectangle.
\<close>

definition Ruler_initial :: "IndentState list option \<Rightarrow> Ruler" where
  "Ruler_initial ed =
    \<lparr>trackRef = None,
     dragStateRef = \<lparr>ds_type = None, ds_pointerId = None\<rparr>,
     isDraggingRef = False,
     trackWidth = 0,
     indents = \<lparr>leftIndent = 0, rightIndent = 0, firstLineIndent = 0\<rparr>,
     activeDragType = None,
     editor = ed\<rparr>"

definition mountTrack :: "DOMRect \<Rightarrow> Ruler \<Rightarrow> Ruler" where
  "mountTrack rect r = r\<lparr>trackRef := Some rect, trackWidth := rect_width rect\<rparr>"

section \<open>The pagination estimator\<close>

text \<open>
  \<^verbatim>\<open>Home\<close> keeps \<^verbatim>\<open>pageCount\<close> and \<^verbatim>\<open>currentPage\<close> in two state cells and reads the
  scroll container through \<^verbatim>\<open>editorRef\<close> (\<open>None\<close> while the element is not mounted).
  The measurements and the device pixel ratio are doubles; each \<^verbatim>\<open>*\<close> and \<^verbatim>\<open>/\<close> of
  \<^verbatim>\<open>updatePagination\<close> is the exact operation followed by \<open>fl64\<close>, and adding 1 to the
  floor is exact. In JavaScript a device pixel ratio of 0 would make the page height
  \<^verbatim>\<open>NaN\<close>; in HOL \<open>x / 0 = 0\<close>, so statements about the estimator take a positive ratio.
\<close>

record Container =
  scrollHeight :: real
  scrollTop :: real

record PaginationState =
  pageCount :: int
  currentPage :: int

record HomeEnv =
  editorRef :: "Container option"
  devicePixelRatio :: real
  editorCreated :: bool

definition Home_initial :: PaginationState where
  "Home_initial = \<lparr>pageCount = 1, currentPage = 1\<rparr>"

definition updatePagination :: "HomeEnv \<Rightarrow> PaginationState \<Rightarrow> PaginationState" where
  "updatePagination env st =
    (case editorRef env of
       None \<Rightarrow> st
     | Some container \<Rightarrow>
         (let pageHeightInches = 11;
              pageHeightPx =
                fl64 (fl64 (fl64 (pageHeightInches * devicePixelRatio env) * 96)
                      / devicePixelRatio env);
              newPageCount = max 1 \<lceil>fl64 (scrollHeight container / pageHeightPx)\<rceil>;
              viewportTop = scrollTop container;
              current = min newPageCount (max 1 (\<lfloor>fl64 (viewportTop / pageHeightPx)\<rfloor> + 1))
          in \<lparr>pageCount = newPageCount, currentPage = current\<rparr>))"

text \<open>
  The events that can reach \<^verbatim>\<open>Home\<close>, and the handlers its two effects install for each:
  the first effect, when the container is mounted, listens to the container's
  \<^verbatim>\<open>scroll\<close> event and calls the estimator once itself; the second, when the editor
  exists, subscribes \<^verbatim>\<open>handleUpdate\<close> to the editor's \<^verbatim>\<open>update\<close> and
  \<^verbatim>\<open>selectionUpdate\<close> events. \<^verbatim>\<open>Home\<close> installs nothing for a resize of the container:
  the only \<^verbatim>\<open>ResizeObserver\<close> of the file watches the ruler's track and sets the track
  width.
\<close>

datatype home_event =
  Mount | ContainerScroll | EditorUpdate | EditorSelectionUpdate | ContainerResize

definition handleScroll :: "HomeEnv \<Rightarrow> PaginationState \<Rightarrow> PaginationState" where
  "handleScroll env st = updatePagination env st"

definition handleUpdate :: "HomeEnv \<Rightarrow> PaginationState \<Rightarrow> PaginationState" where
  "handleUpdate env st = updatePagination env st"

definition Home_listeners ::
    "HomeEnv \<Rightarrow> home_event \<Rightarrow> (HomeEnv \<Rightarrow> PaginationState \<Rightarrow> PaginationState) list" where
  "Home_listeners env ev =
    (case ev of
       Mount \<Rightarrow> (if editorRef env = None then [] else [updatePagination])
     | ContainerScroll \<Rightarrow> (if editorRef env = None then [] else [handleScroll])
     | EditorUpdate \<Rightarrow> (if editorCreated env then [handleUpdate] else [])
     | EditorSelectionUpdate \<Rightarrow> (if editorCreated env then [handleUpdate] else [])
     | ContainerResize \<Rightarrow> [])"

definition Home_dispatch :: "home_event \<Rightarrow> HomeEnv \<Rightarrow> PaginationState \<Rightarrow> PaginationState" where
  "Home_dispatch ev env st = foldl (\<lambda>s h. h env s) st (Home_listeners env ev)"

section \<open>The \<^verbatim>\<open>setIndentRuler\<close> command\<close>

text \<open>
  The command works on the editing engine's document through four calls of its
  interface, modelled by their documented contract:
  \<^item> \<^verbatim>\<open>$from.depth\<close> and \<^verbatim>\<open>$from.node(d)\<close>: a resolved position knows its ancestors,
    the document root at depth 0 and the parent of the position at depth \<^verbatim>\<open>depth\<close>;
  \<^item> \<^verbatim>\<open>$from.before(d)\<close>: the position directly before the ancestor at depth \<open>d\<close>, or,
    for \<open>d = depth + 1\<close>, the resolved position itself; there is no position before
    the root, and \<open>d = 0\<close> raises a range error;
  \<^item> \<^verbatim>\<open>doc.nodeAt(pos)\<close>: the node directly after a position, if any;
  \<^item> \<^verbatim>\<open>tr.setNodeMarkup(pos, undefined, attrs)\<close>: raises a range error when there is
    no node at \<open>pos\<close>; otherwise it keeps the node's type and builds a new node of that
    type with \<^verbatim>\<open>type.create(attrs, ...)\<close>, which refuses to build a text node and
    otherwise keeps, of \<open>attrs\<close>, only the attributes the type declares, taking the
    declared default for a declared attribute that \<open>attrs\<close> leaves out (a range error
    if there is no default). A leaf node is then replaced by the new node, and a node
    with content gets the new node wrapped around its content; the content is valid
    for the type, since the type is the node's own.
  A document is the map from positions to the node directly after each, a resolved
  position is its position with one entry per depth: the ancestor at that depth and
  the position directly before the ancestor one level deeper. A node carries what the
  command and \<^verbatim>\<open>setNodeMarkup\<close> read of its type: the name, whether it is the text
  type, whether it is a leaf, and the declared attributes with their defaults. In this
  editor \<^verbatim>\<open>IndentRuler\<close> declares \<^verbatim>\<open>leftIndent\<close>, \<^verbatim>\<open>rightIndent\<close> and
  \<^verbatim>\<open>firstLineIndent\<close>, each with default 0, for the types \<^verbatim>\<open>paragraph\<close> and
  \<^verbatim>\<open>heading\<close> and for no other.
\<close>

datatype js_value = JNum real | JStr string | JNull

record pm_node =
  type_name :: string
  isText :: bool
  isLeaf :: bool
  type_attrs :: "(string \<times> js_value option) list"
  attrs :: "string \<rightharpoonup> js_value"

record ResolvedPos =
  rp_pos :: nat
  rp_path :: "(pm_node option \<times> nat) list"

datatype pm_error = RangeError | TextNodeError

datatype step = ReplaceStep nat | ReplaceAroundStep nat

record Transaction =
  tr_doc :: "nat \<rightharpoonup> pm_node"
  tr_steps :: "step list"

definition rp_depth :: "ResolvedPos \<Rightarrow> nat" where
  "rp_depth rp = length (rp_path rp) - 1"

definition rp_node :: "ResolvedPos \<Rightarrow> nat \<Rightarrow> pm_node option" where
  "rp_node rp d = (if d < length (rp_path rp) then fst (rp_path rp ! d) else None)"

text \<open>
  The command calls \<open>rp_before\<close> with a depth between 1 and \<open>depth + 1\<close> only; a deeper
  request has no entry to read and is reported as an error here.
\<close>

definition rp_before :: "ResolvedPos \<Rightarrow> nat \<Rightarrow> pm_error + nat" where
  "rp_before rp d =
    (if d = 0 then Inl RangeError
     else if d = rp_depth rp + 1 then Inr (rp_pos rp)
     else if d - 1 < length (rp_path rp) then Inr (snd (rp_path rp ! (d - 1)))
     else Inl RangeError)"

definition nodeAt :: "(nat \<rightharpoonup> pm_node) \<Rightarrow> nat \<Rightarrow> pm_node option" where
  "nodeAt doc pos = doc pos"

fun computeAttrs ::
    "(string \<times> js_value option) list \<Rightarrow> (string \<rightharpoonup> js_value)
      \<Rightarrow> pm_error + (string \<rightharpoonup> js_value)" where
  "computeAttrs [] given = Inr Map.empty"
| "computeAttrs ((name, dflt) # rest) given =
    (case computeAttrs rest given of
       Inl e \<Rightarrow> Inl e
     | Inr built \<Rightarrow>
         (case given name of
            Some v \<Rightarrow> Inr (built(name \<mapsto> v))
          | None \<Rightarrow>
              (case dflt of
                 Some d \<Rightarrow> Inr (built(name \<mapsto> d))
               | None \<Rightarrow> Inl RangeError)))"

definition setNodeMarkup ::
    "nat \<Rightarrow> (string \<rightharpoonup> js_value) \<Rightarrow> Transaction \<Rightarrow> pm_error + Transaction" where
  "setNodeMarkup pos new_attrs tr =
    (case tr_doc tr pos of
       None \<Rightarrow> Inl RangeError
     | Some node \<Rightarrow>
         if isText node then Inl TextNodeError
         else
           (case computeAttrs (type_attrs node) new_attrs of
              Inl e \<Rightarrow> Inl e
            | Inr built \<Rightarrow>
                Inr (tr\<lparr>tr_doc := (tr_doc tr)(pos \<mapsto> node\<lparr>attrs := built\<rparr>),
                        tr_steps := tr_steps tr
                          @ [if isLeaf node then ReplaceStep pos else ReplaceAroundStep pos]\<rparr>)))"

text \<open>
  The loop \<^verbatim>\<open>for (depth = $from.depth; depth >= 0; depth -= 1)\<close>, started at depth \<open>d\<close>:
  the depth of the first paragraph or heading found, or the initial \<open>-1\<close> of
  \<^verbatim>\<open>targetDepth\<close>. A missing node is skipped.
\<close>

fun findTargetDepth :: "ResolvedPos \<Rightarrow> nat \<Rightarrow> int" where
  "findTargetDepth rp 0 =
    (case rp_node rp 0 of
       None \<Rightarrow> - 1
     | Some node \<Rightarrow>
         if type_name node = ''paragraph'' \<or> type_name node = ''heading'' then 0 else - 1)"
| "findTargetDepth rp (Suc d) =
    (case rp_node rp (Suc d) of
       None \<Rightarrow> findTargetDepth rp d
     | Some node \<Rightarrow>
         if type_name node = ''paragraph'' \<or> type_name node = ''heading'' then int (Suc d)
         else findTargetDepth rp d)"

text \<open>
  The command's argument, each field \<open>None\<close> when the caller leaves it out (the
  destructuring defaults it to 0); what the command is run with: the resolved start of
  the selection, the transaction, and whether a \<^verbatim>\<open>dispatch\<close> function was passed; and
  what it leaves behind: its return value, the transaction, and the transactions
  handed to \<^verbatim>\<open>dispatch\<close>.
\<close>

record IndentArgs =
  arg_leftIndent :: "js_value option"
  arg_rightIndent :: "js_value option"
  arg_firstLineIndent :: "js_value option"

record CommandProps =
  selection_from :: ResolvedPos
  cp_tr :: Transaction
  cp_dispatch :: bool

record CommandResult =
  cr_return :: bool
  cr_tr :: Transaction
  cr_dispatched :: "Transaction list"

definition orDefault :: "js_value option \<Rightarrow> js_value" where
  "orDefault v = (case v of None \<Rightarrow> JNum 0 | Some x \<Rightarrow> x)"

definition setIndentRuler :: "IndentArgs \<Rightarrow> CommandProps \<Rightarrow> pm_error + CommandResult" where
  "setIndentRuler args props =
    (let from = selection_from props;
         tr = cp_tr props;
         targetDepth = findTargetDepth from (rp_depth from)
     in if targetDepth < 0
        then Inr \<lparr>cr_return = False, cr_tr = tr, cr_dispatched = []\<rparr>
        else
          (case rp_before from (nat targetDepth + 1) of
             Inl e \<Rightarrow> Inl e
           | Inr pos \<Rightarrow>
               (case nodeAt (tr_doc tr) pos of
                  None \<Rightarrow> Inr \<lparr>cr_return = False, cr_tr = tr, cr_dispatched = []\<rparr>
                | Some node \<Rightarrow>
                    (let nextAttrs = (attrs node)
                           (''leftIndent'' \<mapsto> orDefault (arg_leftIndent args),
                            ''rightIndent'' \<mapsto> orDefault (arg_rightIndent args),
                            ''firstLineIndent'' \<mapsto> orDefault (arg_firstLineIndent args))
                     in case setNodeMarkup pos nextAttrs tr of
                          Inl e \<Rightarrow> Inl e
                        | Inr tr' \<Rightarrow>
                            Inr \<lparr>cr_return = True, cr_tr = tr',
                                 cr_dispatched = (if cp_dispatch props then [tr'] else [])\<rparr>))))"

section \<open>Rounding and clamping\<close>

lemma Math_round_le: "Math_round v \<le> v + 1 / 2"
  unfolding Math_round_def by linarith

lemma Math_round_mono: "a \<le> b \<Longrightarrow> Math_round a \<le> Math_round b"
  unfolding Math_round_def by (simp add: floor_mono)

lemma Math_round_Ints: "v \<in> \<int> \<Longrightarrow> Math_round v = v"
  unfolding Math_round_def by (auto elim!: Ints_cases)



lemma clamp_le: "clamp v lo hi \<le> hi"
  by (simp add: clamp_def)

lemma clamp_ge: "lo \<le> hi \<Longrightarrow> lo \<le> clamp v lo hi"
  by (simp add: clamp_def)

section \<open>What each branch of the indent update assigns\<close>

lemma left_drag_leftIndent:
  "leftIndent (setFromDrag_next MLeft x w s)
     = Math_round (clamp x 0 (max 0 (w - rightIndent s - minGap)))"
  by (simp add: setFromDrag_next_def Let_def)

lemma left_drag_rightIndent:
  "rightIndent (setFromDrag_next MLeft x w s) = rightIndent s"
  by (simp add: setFromDrag_next_def Let_def)


lemma right_drag_rightIndent:
  "rightIndent (setFromDrag_next MRight x w s)
     = Math_round (w - clamp x (min w (leftIndent s + minGap)) w)"
  by (simp add: setFromDrag_next_def Let_def)

lemma right_drag_leftIndent:
  "leftIndent (setFromDrag_next MRight x w s) = leftIndent s"
  by (simp add: setFromDrag_next_def Let_def)

section \<open>The minimum gap between the left and right markers\<close>

text \<open>
  C2, as the spec states it: whenever the track is at least \<open>2 * minGap\<close> wide, the state
  after one update has \<open>leftIndent \<le> trackWidth - rightIndent - minGap\<close>. The code does
  not keep that. From the all-zero state on a track 100.5 pixels wide, dragging the right
  marker to 0 gives \<open>rightIndent = 89\<close>, and \<open>0 \<le> 100.5 - 89 - 12\<close> is false: the indent
  is rounded after it is clamped. And on a track 500 wide with \<open>rightIndent = 900\<close>
  (set when the track was wider), a left drag clamps into \<open>[0, max 0 (500 - 900 - 12)]\<close>
  and gives \<open>leftIndent = 0\<close>, above \<open>500 - 900 - 12\<close>.
\<close>

theorem setFromDrag_gap_counterexample:
  "2 * minGap \<le> 201 / 2 \<and>
   \<not> leftIndent (setFromDrag_next MRight 0 (201 / 2)
          \<lparr>leftIndent = 0, rightIndent = 0, firstLineIndent = 0\<rparr>)
       \<le> 201 / 2
          - rightIndent (setFromDrag_next MRight 0 (201 / 2)
              \<lparr>leftIndent = 0, rightIndent = 0, firstLineIndent = 0\<rparr>)
          - minGap \<and>
   2 * minGap \<le> 500 \<and>
   \<not> leftIndent (setFromDrag_next MLeft 100 500
          \<lparr>leftIndent = 0, rightIndent = 900, firstLineIndent = 0\<rparr>)
       \<le> 500
          - rightIndent (setFromDrag_next MLeft 100 500
              \<lparr>leftIndent = 0, rightIndent = 900, firstLineIndent = 0\<rparr>)
          - minGap"
  unfolding right_drag_leftIndent right_drag_rightIndent left_drag_leftIndent
    left_drag_rightIndent
  by (simp add: clamp_def Math_round_def minGap_def)

text \<open>
  C2, amended. Suppose the dragged marker has room: for a left drag
  \<open>rightIndent \<le> trackWidth - minGap\<close>, for a right drag
  \<open>leftIndent \<le> trackWidth - minGap\<close>, and for a first-line drag the input state already
  keeps the gap. Then the state after the update has
  \<open>leftIndent \<le> trackWidth - rightIndent - minGap + 1/2\<close>; and if, in addition, the
  track width and the input's left and right indents are whole numbers, it has
  \<open>leftIndent \<le> trackWidth - rightIndent - minGap\<close>.
\<close>

theorem setFromDrag_gap:
  assumes room: "case m of
       MLeft \<Rightarrow> rightIndent s \<le> w - minGap
     | MFirstLine \<Rightarrow> leftIndent s \<le> w - rightIndent s - minGap
     | MRight \<Rightarrow> leftIndent s \<le> w - minGap"
  shows "leftIndent (setFromDrag_next m x w s)
           \<le> w - rightIndent (setFromDrag_next m x w s) - minGap + 1 / 2 \<and>
         (w \<in> \<int> \<and> leftIndent s \<in> \<int> \<and> rightIndent s \<in> \<int> \<longrightarrow>
          leftIndent (setFromDrag_next m x w s)
           \<le> w - rightIndent (setFromDrag_next m x w s) - minGap)"
proof (cases m)
  case MLeft
  let ?M = "w - rightIndent s - minGap"
  from room MLeft have M0: "0 \<le> ?M" by simp
  have "clamp x 0 (max 0 ?M) \<le> ?M"
    using M0 clamp_le [of x 0 "max 0 ?M"] by simp
  then have le: "Math_round (clamp x 0 (max 0 ?M)) \<le> Math_round ?M"
    by (rule Math_round_mono)
  have a: "Math_round ?M \<le> ?M + 1 / 2"
    by (rule Math_round_le)
  have b: "w \<in> \<int> \<and> rightIndent s \<in> \<int> \<longrightarrow> Math_round ?M = ?M"
    by (auto intro!: Math_round_Ints simp: minGap_def)
  show ?thesis
    using le a b unfolding MLeft left_drag_leftIndent left_drag_rightIndent by auto
next
  case MFirstLine
  with room show ?thesis
    by (simp add: setFromDrag_next_def Let_def)
next
  case MRight
  let ?M = "w - leftIndent s - minGap"
  from room MRight have M0: "leftIndent s + minGap \<le> w" by simp
  have "leftIndent s + minGap \<le> clamp x (min w (leftIndent s + minGap)) w"
    using M0 clamp_ge [of "min w (leftIndent s + minGap)" w x] by simp
  then have "w - clamp x (min w (leftIndent s + minGap)) w \<le> ?M" by simp
  then have le: "Math_round (w - clamp x (min w (leftIndent s + minGap)) w) \<le> Math_round ?M"
    by (rule Math_round_mono)
  have a: "Math_round ?M \<le> ?M + 1 / 2"
    by (rule Math_round_le)
  have b: "w \<in> \<int> \<and> leftIndent s \<in> \<int> \<longrightarrow> Math_round ?M = ?M"
    by (auto intro!: Math_round_Ints simp: minGap_def)
  show ?thesis
    using le a b unfolding MRight right_drag_rightIndent right_drag_leftIndent by auto
qed

theorem setFromDrag_gap_witness:
  "rightIndent \<lparr>leftIndent = 0, rightIndent = 100, firstLineIndent = 0\<rparr> \<le> 960 - minGap \<and>
   (960::real) \<in> \<int> \<and>
   leftIndent (setFromDrag_next MLeft 2000 960
       \<lparr>leftIndent = 0, rightIndent = 100, firstLineIndent = 0\<rparr>)
     \<le> 960
        - rightIndent (setFromDrag_next MLeft 2000 960
            \<lparr>leftIndent = 0, rightIndent = 100, firstLineIndent = 0\<rparr>)
        - minGap"
proof -
  let ?s = "\<lparr>leftIndent = 0, rightIndent = 100, firstLineIndent = 0\<rparr>"
  have room: "case MLeft of
       MLeft \<Rightarrow> rightIndent ?s \<le> 960 - minGap
     | MFirstLine \<Rightarrow> leftIndent ?s \<le> 960 - rightIndent ?s - minGap
     | MRight \<Rightarrow> leftIndent ?s \<le> 960 - minGap"
    by (simp add: minGap_def)
  have ints: "(960::real) \<in> \<int> \<and> leftIndent ?s \<in> \<int> \<and> rightIndent ?s \<in> \<int>"
    by simp
  from setFromDrag_gap [OF room, of 2000] ints
  have "leftIndent (setFromDrag_next MLeft 2000 960 ?s)
          \<le> 960 - rightIndent (setFromDrag_next MLeft 2000 960 ?s) - minGap"
    by blast
  then show ?thesis
    by (simp add: minGap_def)
qed

section \<open>Dragging the left marker\<close>




section \<open>Dragging the first-line marker\<close>




section \<open>Frame of one indent update\<close>

text \<open>
  C6. Dragging the left marker leaves \<open>rightIndent\<close> as it was, dragging the right marker
  leaves \<open>leftIndent\<close> as it was, and dragging the first-line marker leaves both.
\<close>

theorem setFromDrag_frame:
  "rightIndent (setFromDrag_next MLeft x w s) = rightIndent s \<and>
   leftIndent (setFromDrag_next MRight x w s) = leftIndent s \<and>
   leftIndent (setFromDrag_next MFirstLine x w s) = leftIndent s \<and>
   rightIndent (setFromDrag_next MFirstLine x w s) = rightIndent s"
  by (simp add: setFromDrag_next_def Let_def)

section \<open>Repeating an indent update\<close>

lemma floor_reclamp:
  fixes a L E :: real
  assumes "0 \<le> a" and "a \<le> E"
  shows "\<lfloor>min E (max 0 (L + of_int \<lfloor>a - L + 1 / 2\<rfloor>)) - L + 1 / 2\<rfloor> = \<lfloor>a - L + 1 / 2\<rfloor>"
  using assms by (simp add: min_def max_def floor_eq_iff) linarith

lemma Math_round_reclamp:
  assumes "0 \<le> a" and "a \<le> E"
  shows "Math_round (clamp (L + Math_round (a - L)) 0 E - L) = Math_round (a - L)"
  unfolding Math_round_def clamp_def
  by (simp only: floor_reclamp [OF assms])

lemma right_drag_eq:
  assumes "R = Math_round (w - clamp x (min w (leftIndent s + minGap)) w)"
  shows "setFromDrag_next MRight x w s
     = s\<lparr>rightIndent := R,
         firstLineIndent :=
           Math_round (clamp (leftIndent s + firstLineIndent s) 0 (max 0 (w - R))
                       - leftIndent s)\<rparr>"
  unfolding assms by (simp add: setFromDrag_next_def Let_def)

lemma left_drag_eq:
  assumes "X = clamp x 0 (max 0 (w - rightIndent s - minGap))"
  shows "setFromDrag_next MLeft x w s
     = s\<lparr>leftIndent := Math_round X,
         firstLineIndent :=
           Math_round (clamp (leftIndent s + firstLineIndent s) 0 (max 0 (w - rightIndent s))
                       - X)\<rparr>"
  unfolding assms by (simp add: setFromDrag_next_def Let_def)

text \<open>
  The first-line and the right branch compute the new first-line indent against the
  stored left indent, and repeating either update changes nothing, whatever the inputs.
\<close>

lemma firstLine_drag_idempotent:
  "setFromDrag_next MFirstLine x w (setFromDrag_next MFirstLine x w s)
     = setFromDrag_next MFirstLine x w s"
  by (simp add: setFromDrag_next_def Let_def)

lemma right_drag_idempotent:
  "setFromDrag_next MRight x w (setFromDrag_next MRight x w s) = setFromDrag_next MRight x w s"
proof -
  define R where "R = Math_round (w - clamp x (min w (leftIndent s + minGap)) w)"
  define E where "E = max 0 (w - R)"
  define a where "a = clamp (leftIndent s + firstLineIndent s) 0 E"
  define s1 where "s1 = s\<lparr>rightIndent := R, firstLineIndent := Math_round (a - leftIndent s)\<rparr>"
  have E0: "0 \<le> E" by (simp add: E_def)
  have a: "0 \<le> a" "a \<le> E"
    unfolding a_def using clamp_ge [OF E0] clamp_le by blast+
  have 1: "setFromDrag_next MRight x w s = s1"
    unfolding s1_def a_def E_def by (rule right_drag_eq) (rule R_def)
  have R1: "R = Math_round (w - clamp x (min w (leftIndent s1 + minGap)) w)"
    by (simp add: s1_def R_def)
  have "setFromDrag_next MRight x w s1
      = s1\<lparr>rightIndent := R,
           firstLineIndent :=
             Math_round (clamp (leftIndent s1 + firstLineIndent s1) 0 (max 0 (w - R))
                         - leftIndent s1)\<rparr>"
    by (rule right_drag_eq [OF R1])
  also have "\<dots> = s1"
    using Math_round_reclamp [OF a, of "leftIndent s"] by (simp add: s1_def E_def)
  finally show ?thesis unfolding 1 .
qed

text \<open>
  The left branch subtracts the unrounded pointer position \<^verbatim>\<open>newLeftX\<close>, while it stores
  the rounded one. Repeating a left drag changes nothing as long as the clamped pointer
  position is a whole number.
\<close>

lemma left_drag_idempotent_whole:
  assumes whole: "clamp x 0 (max 0 (w - rightIndent s - minGap)) \<in> \<int>"
  shows "setFromDrag_next MLeft x w (setFromDrag_next MLeft x w s) = setFromDrag_next MLeft x w s"
proof -
  define X where "X = clamp x 0 (max 0 (w - rightIndent s - minGap))"
  define E where "E = max 0 (w - rightIndent s)"
  define a where "a = clamp (leftIndent s + firstLineIndent s) 0 E"
  define s1 where "s1 = s\<lparr>leftIndent := Math_round X, firstLineIndent := Math_round (a - X)\<rparr>"
  have E0: "0 \<le> E" by (simp add: E_def)
  have a: "0 \<le> a" "a \<le> E"
    unfolding a_def using clamp_ge [OF E0] clamp_le by blast+
  have X: "Math_round X = X"
    using whole unfolding X_def by (rule Math_round_Ints)
  have 1: "setFromDrag_next MLeft x w s = s1"
    unfolding s1_def a_def E_def by (rule left_drag_eq) (rule X_def)
  have X1: "X = clamp x 0 (max 0 (w - rightIndent s1 - minGap))"
    by (simp add: s1_def X_def)
  have "setFromDrag_next MLeft x w s1
      = s1\<lparr>leftIndent := Math_round X,
           firstLineIndent :=
             Math_round (clamp (leftIndent s1 + firstLineIndent s1) 0 (max 0 (w - rightIndent s1))
                         - X)\<rparr>"
    by (rule left_drag_eq [OF X1])
  also have "\<dots> = s1"
    using Math_round_reclamp [OF a, of X] by (simp add: s1_def E_def X)
  finally show ?thesis unfolding 1 .
qed

text \<open>
  C7. The spec asks that applying the same (marker, position) update to its own result
  changes nothing. The left branch breaks this at a fractional pointer position: on a
  track 100 wide, from the all-zero state, a left drag to 0.5 gives
  \<open>leftIndent = 1, firstLineIndent = 0\<close>, and the same drag again gives
  \<open>firstLineIndent = 1\<close>; the first-line marker creeps by a pixel with every repeat.
\<close>

theorem left_drag_not_idempotent:
  "setFromDrag_next MLeft (1 / 2) 100 \<lparr>leftIndent = 0, rightIndent = 0, firstLineIndent = 0\<rparr>
     = \<lparr>leftIndent = 1, rightIndent = 0, firstLineIndent = 0\<rparr> \<and>
   setFromDrag_next MLeft (1 / 2) 100 \<lparr>leftIndent = 1, rightIndent = 0, firstLineIndent = 0\<rparr>
     = \<lparr>leftIndent = 1, rightIndent = 0, firstLineIndent = 1\<rparr>"
  by (simp add: setFromDrag_next_def Let_def clamp_def Math_round_def minGap_def)

section \<open>The drag session\<close>

text \<open>
  C8. While a drag session of marker \<open>m\<close> with pointer \<open>p\<close> is active, a pointer-move or
  pointer-up (or pointer-cancel, which runs the same handler) of another pointer leaves
  the whole ruler state, and so the session, the indents and the updates pushed to the
  editor, as it was; a pointer-up of \<open>p\<close> resets the session to idle and changes nothing
  else. After a pointer-down with id 5 on a mounted track, a pointer-move with id 7
  changes nothing and a pointer-up with id 5 ends the drag, keeping the indents.
\<close>

theorem pointer_session:
  assumes active: "dragStateRef r = \<lparr>ds_type = Some m, ds_pointerId = Some p\<rparr>"
  shows "(pointerId other \<noteq> p \<longrightarrow>
            handleMarkerPointerMove other r = r \<and> handleMarkerPointerUp other r = r) \<and>
         (pointerId own = p \<longrightarrow>
            handleMarkerPointerUp own r
              = r\<lparr>dragStateRef := \<lparr>ds_type = None, ds_pointerId = None\<rparr>,
                   isDraggingRef := False, activeDragType := None\<rparr>) \<and>
         (trackRef idle \<noteq> None \<longrightarrow>
            dragStateRef (handleMarkerPointerDown m \<lparr>pointerId = 5, clientX = xa\<rparr> idle)
              = \<lparr>ds_type = Some m, ds_pointerId = Some 5\<rparr> \<and>
            handleMarkerPointerMove \<lparr>pointerId = 7, clientX = xb\<rparr>
                (handleMarkerPointerDown m \<lparr>pointerId = 5, clientX = xa\<rparr> idle)
              = handleMarkerPointerDown m \<lparr>pointerId = 5, clientX = xa\<rparr> idle \<and>
            dragStateRef (handleMarkerPointerUp \<lparr>pointerId = 5, clientX = xc\<rparr>
                (handleMarkerPointerDown m \<lparr>pointerId = 5, clientX = xa\<rparr> idle))
              = \<lparr>ds_type = None, ds_pointerId = None\<rparr> \<and>
            indents (handleMarkerPointerUp \<lparr>pointerId = 5, clientX = xc\<rparr>
                (handleMarkerPointerDown m \<lparr>pointerId = 5, clientX = xa\<rparr> idle))
              = indents (handleMarkerPointerDown m \<lparr>pointerId = 5, clientX = xa\<rparr> idle))"
proof -
  have down: "trackRef idle \<noteq> None \<Longrightarrow>
      dragStateRef (handleMarkerPointerDown m \<lparr>pointerId = 5, clientX = xa\<rparr> idle)
        = \<lparr>ds_type = Some m, ds_pointerId = Some 5\<rparr>"
    by (auto simp: handleMarkerPointerDown_def setFromDrag_def applyToEditor_def Let_def
          split: option.splits)
  have mv: "\<And>r' q ev. dragStateRef r' = \<lparr>ds_type = Some m, ds_pointerId = Some q\<rparr> \<Longrightarrow>
      pointerId ev \<noteq> q \<Longrightarrow> handleMarkerPointerMove ev r' = r'"
    by (simp add: handleMarkerPointerMove_def)
  have up_other: "\<And>r' q ev. dragStateRef r' = \<lparr>ds_type = Some m, ds_pointerId = Some q\<rparr> \<Longrightarrow>
      pointerId ev \<noteq> q \<Longrightarrow> handleMarkerPointerUp ev r' = r'"
    by (simp add: handleMarkerPointerUp_def)
  have up_own: "\<And>r' q ev. dragStateRef r' = \<lparr>ds_type = Some m, ds_pointerId = Some q\<rparr> \<Longrightarrow>
      pointerId ev = q \<Longrightarrow> handleMarkerPointerUp ev r'
        = r'\<lparr>dragStateRef := \<lparr>ds_type = None, ds_pointerId = None\<rparr>,
               isDraggingRef := False, activeDragType := None\<rparr>"
    by (simp add: handleMarkerPointerUp_def)
  show ?thesis
  proof (intro conjI impI)
    assume "pointerId other \<noteq> p"
    then show "handleMarkerPointerMove other r = r"
      using mv [OF active] by simp
  next
    assume "pointerId other \<noteq> p"
    then show "handleMarkerPointerUp other r = r"
      using up_other [OF active] by simp
  next
    assume "pointerId own = p"
    then show "handleMarkerPointerUp own r
              = r\<lparr>dragStateRef := \<lparr>ds_type = None, ds_pointerId = None\<rparr>,
                   isDraggingRef := False, activeDragType := None\<rparr>"
      using up_own [OF active] by simp
  next
    assume t: "trackRef idle \<noteq> None"
    show "dragStateRef (handleMarkerPointerDown m \<lparr>pointerId = 5, clientX = xa\<rparr> idle)
              = \<lparr>ds_type = Some m, ds_pointerId = Some 5\<rparr>"
      by (rule down [OF t])
  next
    assume t: "trackRef idle \<noteq> None"
    show "handleMarkerPointerMove \<lparr>pointerId = 7, clientX = xb\<rparr>
                (handleMarkerPointerDown m \<lparr>pointerId = 5, clientX = xa\<rparr> idle)
              = handleMarkerPointerDown m \<lparr>pointerId = 5, clientX = xa\<rparr> idle"
      by (rule mv [OF down [OF t]]) simp
  next
    assume t: "trackRef idle \<noteq> None"
    show "dragStateRef (handleMarkerPointerUp \<lparr>pointerId = 5, clientX = xc\<rparr>
                (handleMarkerPointerDown m \<lparr>pointerId = 5, clientX = xa\<rparr> idle))
              = \<lparr>ds_type = None, ds_pointerId = None\<rparr>"
      by (subst up_own [OF down [OF t]]) simp_all
  next
    assume t: "trackRef idle \<noteq> None"
    show "indents (handleMarkerPointerUp \<lparr>pointerId = 5, clientX = xc\<rparr>
                (handleMarkerPointerDown m \<lparr>pointerId = 5, clientX = xa\<rparr> idle))
              = indents (handleMarkerPointerDown m \<lparr>pointerId = 5, clientX = xa\<rparr> idle)"
      by (subst up_own [OF down [OF t]]) simp_all
  qed
qed

theorem pointer_session_witness:
  "trackRef (mountTrack \<lparr>rect_left = 0, rect_width = 960\<rparr> (Ruler_initial (Some []))) \<noteq> None \<and>
   dragStateRef (handleMarkerPointerDown MLeft \<lparr>pointerId = 5, clientX = 100\<rparr>
       (mountTrack \<lparr>rect_left = 0, rect_width = 960\<rparr> (Ruler_initial (Some []))))
     = \<lparr>ds_type = Some MLeft, ds_pointerId = Some 5\<rparr> \<and>
   pointerId \<lparr>pointerId = 7, clientX = 300\<rparr> \<noteq> 5 \<and>
   pointerId \<lparr>pointerId = 5, clientX = 300\<rparr> = 5 \<and>
   handleMarkerPointerMove \<lparr>pointerId = 7, clientX = 300\<rparr>
       (handleMarkerPointerDown MLeft \<lparr>pointerId = 5, clientX = 100\<rparr>
          (mountTrack \<lparr>rect_left = 0, rect_width = 960\<rparr> (Ruler_initial (Some []))))
     = handleMarkerPointerDown MLeft \<lparr>pointerId = 5, clientX = 100\<rparr>
          (mountTrack \<lparr>rect_left = 0, rect_width = 960\<rparr> (Ruler_initial (Some []))) \<and>
   handleMarkerPointerUp \<lparr>pointerId = 7, clientX = 300\<rparr>
       (handleMarkerPointerDown MLeft \<lparr>pointerId = 5, clientX = 100\<rparr>
          (mountTrack \<lparr>rect_left = 0, rect_width = 960\<rparr> (Ruler_initial (Some []))))
     = handleMarkerPointerDown MLeft \<lparr>pointerId = 5, clientX = 100\<rparr>
          (mountTrack \<lparr>rect_left = 0, rect_width = 960\<rparr> (Ruler_initial (Some []))) \<and>
   dragStateRef (handleMarkerPointerUp \<lparr>pointerId = 5, clientX = 300\<rparr>
       (handleMarkerPointerDown MLeft \<lparr>pointerId = 5, clientX = 100\<rparr>
          (mountTrack \<lparr>rect_left = 0, rect_width = 960\<rparr> (Ruler_initial (Some [])))))
     = \<lparr>ds_type = None, ds_pointerId = None\<rparr>"
proof -
  let ?idle = "mountTrack \<lparr>rect_left = 0, rect_width = 960\<rparr> (Ruler_initial (Some []))"
  let ?r = "handleMarkerPointerDown MLeft \<lparr>pointerId = 5, clientX = 100\<rparr> ?idle"
  have t: "trackRef ?idle \<noteq> None"
    by (simp add: mountTrack_def)
  have active: "dragStateRef ?r = \<lparr>ds_type = Some MLeft, ds_pointerId = Some 5\<rparr>"
    by (simp add: handleMarkerPointerDown_def setFromDrag_def applyToEditor_def Let_def
          mountTrack_def Ruler_initial_def)
  have ids: "pointerId \<lparr>pointerId = 7, clientX = 300\<rparr> \<noteq> 5"
    "pointerId \<lparr>pointerId = 5, clientX = 300\<rparr> = 5"
    by simp_all
  from pointer_session [OF active, of "\<lparr>pointerId = 7, clientX = 300\<rparr>"
      "\<lparr>pointerId = 5, clientX = 300\<rparr>" ?idle 100 300 300] ids t
  have "handleMarkerPointerMove \<lparr>pointerId = 7, clientX = 300\<rparr> ?r = ?r"
    and "handleMarkerPointerUp \<lparr>pointerId = 7, clientX = 300\<rparr> ?r = ?r"
    and "dragStateRef (handleMarkerPointerUp \<lparr>pointerId = 5, clientX = 300\<rparr> ?r)
          = \<lparr>ds_type = None, ds_pointerId = None\<rparr>"
    by blast+
  with t active ids show ?thesis
    by blast
qed

section \<open>The page count and the current page\<close>

text \<open>
  The doubles nearest to 0.86 and 1.05, and the page height the estimator computes at
  some device pixel ratios: 1056 at ratio 1, one unit in the last place less at 0.86,
  one more at 1.05.
\<close>

lemma fl64_086: "fl64 (86 / 100) = 7746191359077253 / 9007199254740992"
  by code_simp

lemma fl64_105: "fl64 (105 / 100) = 4728779608739021 / 4503599627370496"
  by code_simp

lemma pageHeightPx_at_1: "fl64 (fl64 (fl64 (11 * 1) * 96) / 1) = 1056"
  by code_simp

lemma pageHeightPx_at_086:
  "fl64 (fl64 (fl64 (11 * (7746191359077253 / 9007199254740992)) * 96)
         / (7746191359077253 / 9007199254740992)) = 1056 - 1 / 2 ^ 42"
  by code_simp

lemma pageHeightPx_at_105:
  "fl64 (fl64 (fl64 (11 * (4728779608739021 / 4503599627370496)) * 96)
         / (4728779608739021 / 4503599627370496)) = 1056 + 1 / 2 ^ 42"
  by code_simp

text \<open>
  The same happens at ratios a browser reports when zoomed, such as \<open>60 / 57\<close>.
\<close>

lemma pageHeightPx_at_60_57:
  "fl64 (fl64 (fl64 (11 * fl64 (60 / 57)) * 96) / fl64 (60 / 57)) = 1056 - 1 / 2 ^ 42"
  by code_simp

text \<open>At a device pixel ratio of 1 the estimator gives the values the spec lists.\<close>

lemma updatePagination_at_ratio_1:
  "updatePagination
     \<lparr>editorRef = Some \<lparr>scrollHeight = 0, scrollTop = 0\<rparr>,
      devicePixelRatio = 1, editorCreated = True\<rparr> Home_initial
     = \<lparr>pageCount = 1, currentPage = 1\<rparr>"
  "updatePagination
     \<lparr>editorRef = Some \<lparr>scrollHeight = 1056, scrollTop = 0\<rparr>,
      devicePixelRatio = 1, editorCreated = True\<rparr> Home_initial
     = \<lparr>pageCount = 1, currentPage = 1\<rparr>"
  "updatePagination
     \<lparr>editorRef = Some \<lparr>scrollHeight = 1057, scrollTop = 0\<rparr>,
      devicePixelRatio = 1, editorCreated = True\<rparr> Home_initial
     = \<lparr>pageCount = 2, currentPage = 1\<rparr>"
  "updatePagination
     \<lparr>editorRef = Some \<lparr>scrollHeight = 3000, scrollTop = 1056\<rparr>,
      devicePixelRatio = 1, editorCreated = True\<rparr> Home_initial
     = \<lparr>pageCount = 3, currentPage = 2\<rparr>"
  by code_simp+

text \<open>
  C1. The spec fixes the page height at 1056 pixels whatever the device pixel ratio, so
  that a content height of 1056 is one page and a scroll offset of 1056 in a document
  of three pages is page 2. The code computes the height as
  \<^verbatim>\<open>(11 * devicePixelRatio * 96) / devicePixelRatio\<close> in doubles, and the ratio does
  not always cancel. At ratio 0.86 the height is \<open>1056 - 1 / 2 ^ 42\<close> and a content
  height of 1056 gives two pages; at ratio 1.05 the height is \<open>1056 + 1 / 2 ^ 42\<close> and a
  scroll offset of 1056 in a document of three pages gives page 1.
\<close>

theorem updatePagination_ratio_does_not_cancel:
  "updatePagination
     \<lparr>editorRef = Some \<lparr>scrollHeight = 1056, scrollTop = 0\<rparr>,
      devicePixelRatio = 7746191359077253 / 9007199254740992, editorCreated = True\<rparr>
     Home_initial
     = \<lparr>pageCount = 2, currentPage = 1\<rparr> \<and>
   updatePagination
     \<lparr>editorRef = Some \<lparr>scrollHeight = 3000, scrollTop = 1056\<rparr>,
      devicePixelRatio = 4728779608739021 / 4503599627370496, editorCreated = True\<rparr>
     Home_initial
     = \<lparr>pageCount = 3, currentPage = 1\<rparr>"
  by code_simp

section \<open>When the estimator runs\<close>

lemma Home_dispatch_triggers:
  "editorRef env \<noteq> None \<Longrightarrow> Home_dispatch Mount env st = updatePagination env st"
  "editorRef env \<noteq> None \<Longrightarrow> Home_dispatch ContainerScroll env st = updatePagination env st"
  "editorCreated env \<Longrightarrow> Home_dispatch EditorUpdate env st = updatePagination env st"
  "editorCreated env \<Longrightarrow> Home_dispatch EditorSelectionUpdate env st = updatePagination env st"
  by (auto simp: Home_dispatch_def Home_listeners_def handleScroll_def handleUpdate_def)

text \<open>
  C3. The spec lists five triggers after each of which the exposed page count and
  current page equal the estimator's result: mount, container scroll, document update,
  selection update, and a resize of the container. The first four run the estimator
  (\<open>Home_dispatch_triggers\<close>); a resize of the container does not. With the state still
  at its initial page 1 of 1 and a container whose content has grown to 3000 pixels, the
  resize event leaves page 1 of 1 on display, where the estimator gives three pages.
\<close>

theorem container_resize_not_observed:
  "Home_dispatch ContainerResize
     \<lparr>editorRef = Some \<lparr>scrollHeight = 3000, scrollTop = 0\<rparr>,
      devicePixelRatio = 1, editorCreated = True\<rparr>
     \<lparr>pageCount = 1, currentPage = 1\<rparr> = \<lparr>pageCount = 1, currentPage = 1\<rparr> \<and>
   updatePagination
     \<lparr>editorRef = Some \<lparr>scrollHeight = 3000, scrollTop = 0\<rparr>,
      devicePixelRatio = 1, editorCreated = True\<rparr>
     \<lparr>pageCount = 1, currentPage = 1\<rparr> = \<lparr>pageCount = 3, currentPage = 1\<rparr>"
  by code_simp

section \<open>Missing targets\<close>

lemma findTargetDepth_none:
  "(\<forall>d' \<le> d. \<forall>n. rp_node rp d' = Some n \<longrightarrow>
      type_name n \<noteq> ''paragraph'' \<and> type_name n \<noteq> ''heading'') \<Longrightarrow>
   findTargetDepth rp d = - 1"
proof (induction d)
  case 0
  then show ?case by (auto split: option.splits)
next
  case (Suc d)
  from Suc.prems have "\<forall>d' \<le> d. \<forall>n. rp_node rp d' = Some n \<longrightarrow>
      type_name n \<noteq> ''paragraph'' \<and> type_name n \<noteq> ''heading''"
    by (meson le_SucI)
  then have "findTargetDepth rp d = - 1" by (rule Suc.IH)
  moreover have "\<forall>n. rp_node rp (Suc d) = Some n \<longrightarrow>
      type_name n \<noteq> ''paragraph'' \<and> type_name n \<noteq> ''heading''"
    using Suc.prems by blast
  ultimately show ?case by (auto split: option.splits)
qed

text \<open>
  C9. Missing targets are silent no-ops. When no ancestor of the selection, at any depth
  from the selection's own up to the root, is a paragraph or a heading, \<open>setIndentRuler\<close>
  raises nothing and returns \<open>False\<close>, with the transaction untouched and nothing
  dispatched. When the container reference is not set, \<open>updatePagination\<close> returns the
  page count and current page it was given.
\<close>

theorem missing_target_noop:
  "((\<forall>d \<le> rp_depth (selection_from props). \<forall>n.
        rp_node (selection_from props) d = Some n \<longrightarrow>
        type_name n \<noteq> ''paragraph'' \<and> type_name n \<noteq> ''heading'') \<longrightarrow>
    setIndentRuler args props
      = Inr \<lparr>cr_return = False, cr_tr = cp_tr props, cr_dispatched = []\<rparr>) \<and>
   (editorRef env = None \<longrightarrow> updatePagination env st = st)"
  by (simp add: setIndentRuler_def Let_def findTargetDepth_none updatePagination_def)

theorem missing_target_noop_witness:
  "setIndentRuler
     \<lparr>arg_leftIndent = Some (JNum 40), arg_rightIndent = None, arg_firstLineIndent = None\<rparr>
     \<lparr>selection_from = \<lparr>rp_pos = 1, rp_path =
        [(Some \<lparr>type_name = ''doc'', isText = False, isLeaf = False, type_attrs = [],
                attrs = Map.empty\<rparr>, 0),
         (Some \<lparr>type_name = ''codeBlock'', isText = False, isLeaf = False, type_attrs = [],
                attrs = Map.empty\<rparr>, 1)]\<rparr>,
      cp_tr = \<lparr>tr_doc = [0 \<mapsto> \<lparr>type_name = ''codeBlock'', isText = False, isLeaf = False,
                               type_attrs = [], attrs = Map.empty\<rparr>],
               tr_steps = []\<rparr>,
      cp_dispatch = True\<rparr>
     = Inr \<lparr>cr_return = False,
            cr_tr = \<lparr>tr_doc = [0 \<mapsto> \<lparr>type_name = ''codeBlock'', isText = False,
                                     isLeaf = False, type_attrs = [], attrs = Map.empty\<rparr>],
                     tr_steps = []\<rparr>,
            cr_dispatched = []\<rparr> \<and>
   editorRef \<lparr>editorRef = None, devicePixelRatio = 1, editorCreated = False\<rparr> = None \<and>
   updatePagination \<lparr>editorRef = None, devicePixelRatio = 1, editorCreated = False\<rparr>
     Home_initial = Home_initial"
proof -
  let ?rp = "\<lparr>rp_pos = 1, rp_path =
        [(Some \<lparr>type_name = ''doc'', isText = False, isLeaf = False, type_attrs = [],
                attrs = Map.empty\<rparr>, 0),
         (Some \<lparr>type_name = ''codeBlock'', isText = False, isLeaf = False, type_attrs = [],
                attrs = Map.empty\<rparr>, 1)]\<rparr>"
  let ?props = "\<lparr>selection_from = ?rp,
      cp_tr = \<lparr>tr_doc = [0 \<mapsto> \<lparr>type_name = ''codeBlock'', isText = False, isLeaf = False,
                               type_attrs = [], attrs = Map.empty\<rparr>],
               tr_steps = []\<rparr>,
      cp_dispatch = True\<rparr>"
  have none: "\<forall>d \<le> rp_depth ?rp. \<forall>n. rp_node ?rp d = Some n \<longrightarrow>
      type_name n \<noteq> ''paragraph'' \<and> type_name n \<noteq> ''heading''"
    by (auto simp: rp_depth_def rp_node_def nth_Cons' split: if_splits)
  have none': "\<forall>d \<le> rp_depth (selection_from ?props). \<forall>n.
      rp_node (selection_from ?props) d = Some n \<longrightarrow>
      type_name n \<noteq> ''paragraph'' \<and> type_name n \<noteq> ''heading''"
    using none by simp
  from missing_target_noop [of ?props
      "\<lparr>arg_leftIndent = Some (JNum 40), arg_rightIndent = None, arg_firstLineIndent = None\<rparr>"
      "\<lparr>editorRef = None, devicePixelRatio = 1, editorCreated = False\<rparr>"
      Home_initial] none'
  have "setIndentRuler
      \<lparr>arg_leftIndent = Some (JNum 40), arg_rightIndent = None, arg_firstLineIndent = None\<rparr>
      ?props = Inr \<lparr>cr_return = False, cr_tr = cp_tr ?props, cr_dispatched = []\<rparr>"
    and "updatePagination \<lparr>editorRef = None, devicePixelRatio = 1, editorCreated = False\<rparr>
     Home_initial = Home_initial"
    by simp_all
  then show ?thesis by simp
qed

section \<open>The node that \<open>setIndentRuler\<close> re-marks\<close>

text \<open>
  The attributes \<open>computeAttrs\<close> builds are the declared ones and no other.
\<close>

lemma computeAttrs_dom:
  "computeAttrs declared given = Inr built \<Longrightarrow> dom built = fst ` set declared"
proof (induction declared arbitrary: built)
  case Nil
  then show ?case by simp
next
  case (Cons a declared)
  obtain name dflt where a: "a = (name, dflt)"
    by (cases a)
  from Cons.prems obtain b v where b: "computeAttrs declared given = Inr b"
    and built: "built = b(name \<mapsto> v)"
    unfolding a by (auto split: sum.splits option.splits)
  have "dom built = insert name (dom b)"
    unfolding built by simp
  also have "dom b = fst ` set declared"
    by (rule Cons.IH [OF b])
  finally show ?case
    unfolding a by simp
qed

text \<open>
  A successful run re-builds the node at one position, the one that \<^verbatim>\<open>$from.before\<close>
  returns for the depth below the target block. That node is not a text node; it gets
  the attributes its type declares, read from its old attributes with the three indents
  replaced; every other position of the document stays as it was, and one step is
  recorded.
\<close>

lemma setIndentRuler_success:
  assumes "setIndentRuler args props = Inr res" and "cr_return res"
  shows "\<exists>pos node built.
           rp_before (selection_from props)
             (nat (findTargetDepth (selection_from props) (rp_depth (selection_from props))) + 1)
             = Inr pos \<and>
           tr_doc (cp_tr props) pos = Some node \<and> \<not> isText node \<and>
           computeAttrs (type_attrs node) ((attrs node)
                (''leftIndent'' \<mapsto> orDefault (arg_leftIndent args),
                 ''rightIndent'' \<mapsto> orDefault (arg_rightIndent args),
                 ''firstLineIndent'' \<mapsto> orDefault (arg_firstLineIndent args))) = Inr built \<and>
           tr_doc (cr_tr res) = (tr_doc (cp_tr props))(pos \<mapsto> node\<lparr>attrs := built\<rparr>) \<and>
           length (tr_steps (cr_tr res)) = Suc (length (tr_steps (cp_tr props)))"
  using assms
  by (auto simp: setIndentRuler_def Let_def nodeAt_def setNodeMarkup_def
        split: if_splits sum.splits option.splits)

text \<open>
  C10. The claim is that a successful \<open>setIndentRuler\<close> re-marks the nearest paragraph or
  heading ancestor of the selection with the new indents. The command asks for the
  position before depth \<open>targetDepth + 1\<close>, one level below the block it found. With the
  cursor at position 1, directly inside a paragraph that starts at position 0, the
  target depth is the cursor's own depth and the position used is the cursor's. If a
  hard break follows the cursor, the command re-builds the hard break, whose type
  declares no attribute, and returns \<open>True\<close> with the document as it was: the paragraph
  keeps its indents of 0. If text follows the cursor, the command raises.
\<close>

theorem setIndentRuler_misses_block:
  "setIndentRuler
     \<lparr>arg_leftIndent = Some (JNum 40), arg_rightIndent = Some (JNum 0),
      arg_firstLineIndent = Some (JNum 20)\<rparr>
     \<lparr>selection_from = \<lparr>rp_pos = 1, rp_path =
        [(Some \<lparr>type_name = ''doc'', isText = False, isLeaf = False, type_attrs = [],
                attrs = Map.empty\<rparr>, 0),
         (Some \<lparr>type_name = ''paragraph'', isText = False, isLeaf = False,
                type_attrs = [(''leftIndent'', Some (JNum 0)), (''rightIndent'', Some (JNum 0)),
                              (''firstLineIndent'', Some (JNum 0))],
                attrs = [''leftIndent'' \<mapsto> JNum 0, ''rightIndent'' \<mapsto> JNum 0,
                         ''firstLineIndent'' \<mapsto> JNum 0]\<rparr>, 1)]\<rparr>,
      cp_tr = \<lparr>tr_doc =
                 [0 \<mapsto> \<lparr>type_name = ''paragraph'', isText = False, isLeaf = False,
                          type_attrs = [(''leftIndent'', Some (JNum 0)),
                                        (''rightIndent'', Some (JNum 0)),
                                        (''firstLineIndent'', Some (JNum 0))],
                          attrs = [''leftIndent'' \<mapsto> JNum 0, ''rightIndent'' \<mapsto> JNum 0,
                                   ''firstLineIndent'' \<mapsto> JNum 0]\<rparr>,
                  1 \<mapsto> \<lparr>type_name = ''hardBreak'', isText = False, isLeaf = True,
                          type_attrs = [], attrs = Map.empty\<rparr>],
               tr_steps = []\<rparr>,
      cp_dispatch = False\<rparr>
   = Inr \<lparr>cr_return = True,
          cr_tr = \<lparr>tr_doc =
                 [0 \<mapsto> \<lparr>type_name = ''paragraph'', isText = False, isLeaf = False,
                          type_attrs = [(''leftIndent'', Some (JNum 0)),
                                        (''rightIndent'', Some (JNum 0)),
                                        (''firstLineIndent'', Some (JNum 0))],
                          attrs = [''leftIndent'' \<mapsto> JNum 0, ''rightIndent'' \<mapsto> JNum 0,
                                   ''firstLineIndent'' \<mapsto> JNum 0]\<rparr>,
                  1 \<mapsto> \<lparr>type_name = ''hardBreak'', isText = False, isLeaf = True,
                          type_attrs = [], attrs = Map.empty\<rparr>],
               tr_steps = [ReplaceStep 1]\<rparr>,
          cr_dispatched = []\<rparr> \<and>
   setIndentRuler
     \<lparr>arg_leftIndent = Some (JNum 40), arg_rightIndent = Some (JNum 0),
      arg_firstLineIndent = Some (JNum 20)\<rparr>
     \<lparr>selection_from = \<lparr>rp_pos = 1, rp_path =
        [(Some \<lparr>type_name = ''doc'', isText = False, isLeaf = False, type_attrs = [],
                attrs = Map.empty\<rparr>, 0),
         (Some \<lparr>type_name = ''paragraph'', isText = False, isLeaf = False,
                type_attrs = [(''leftIndent'', Some (JNum 0)), (''rightIndent'', Some (JNum 0)),
                              (''firstLineIndent'', Some (JNum 0))],
                attrs = [''leftIndent'' \<mapsto> JNum 0, ''rightIndent'' \<mapsto> JNum 0,
                         ''firstLineIndent'' \<mapsto> JNum 0]\<rparr>, 1)]\<rparr>,
      cp_tr = \<lparr>tr_doc =
                 [0 \<mapsto> \<lparr>type_name = ''paragraph'', isText = False, isLeaf = False,
                          type_attrs = [(''leftIndent'', Some (JNum 0)),
                                        (''rightIndent'', Some (JNum 0)),
                                        (''firstLineIndent'', Some (JNum 0))],
                          attrs = [''leftIndent'' \<mapsto> JNum 0, ''rightIndent'' \<mapsto> JNum 0,
                                   ''firstLineIndent'' \<mapsto> JNum 0]\<rparr>,
                  1 \<mapsto> \<lparr>type_name = ''text'', isText = True, isLeaf = True,
                          type_attrs = [], attrs = Map.empty\<rparr>],
               tr_steps = []\<rparr>,
      cp_dispatch = False\<rparr>
   = Inl TextNodeError"
  by (simp add: setIndentRuler_def Let_def rp_depth_def rp_node_def rp_before_def nodeAt_def
        setNodeMarkup_def orDefault_def)

end
